theory Spec2Isabelle
  imports Complex_Main
begin

section \<open>Values\<close>

text \<open>
  \<^verbatim>\<open>src/domain/models.py\<close>, lines 4-8: \<^verbatim>\<open>class Room(str, Enum)\<close> with four members.
  Each member is a \<^verbatim>\<open>str\<close> whose text is its value.
\<close>

datatype Room = LIVING | KITCHEN | BEDROOM | BATHROOM

fun Room_value :: "Room \<Rightarrow> string" where
  "Room_value LIVING = ''living_room''"
| "Room_value KITCHEN = ''kitchen''"
| "Room_value BEDROOM = ''bedroom''"
| "Room_value BATHROOM = ''bathroom''"

definition Room_members :: "Room list" where
  "Room_members = [LIVING, KITCHEN, BEDROOM, BATHROOM]"

text \<open>
  A Python \<^verbatim>\<open>float\<close>: a finite value, given by the real number it denotes, or one
  of \<^verbatim>\<open>inf\<close>, \<^verbatim>\<open>-inf\<close> and \<^verbatim>\<open>nan\<close>. pydantic accepts all of them for a field
  annotated \<^verbatim>\<open>float\<close>. Every real is admitted as a finite value, so the finite floats
  are among them.
\<close>

datatype pyfloat = Finite real | PosInf | NegInf | NaN

text \<open>
  The comparisons \<^verbatim>\<open><\<close>, \<^verbatim>\<open><=\<close> and \<^verbatim>\<open>==\<close> of floats. Every comparison with
  \<^verbatim>\<open>nan\<close> is false. An \<^verbatim>\<open>int\<close> literal such as \<^verbatim>\<open>20\<close> compares as the finite
  value \<open>Finite 20\<close>; \<^verbatim>\<open>a >= b\<close> is \<^verbatim>\<open>b <= a\<close>.
\<close>

fun float_lt :: "pyfloat \<Rightarrow> pyfloat \<Rightarrow> bool" where
  "float_lt NaN b = False"
| "float_lt a NaN = False"
| "float_lt (Finite x) (Finite y) = (x < y)"
| "float_lt (Finite x) PosInf = True"
| "float_lt (Finite x) NegInf = False"
| "float_lt NegInf (Finite y) = True"
| "float_lt NegInf PosInf = True"
| "float_lt NegInf NegInf = False"
| "float_lt PosInf b = False"

fun float_le :: "pyfloat \<Rightarrow> pyfloat \<Rightarrow> bool" where
  "float_le NaN b = False"
| "float_le a NaN = False"
| "float_le (Finite x) (Finite y) = (x \<le> y)"
| "float_le (Finite x) PosInf = True"
| "float_le (Finite x) NegInf = False"
| "float_le NegInf b = True"
| "float_le PosInf PosInf = True"
| "float_le PosInf b = False"

fun float_eq :: "pyfloat \<Rightarrow> pyfloat \<Rightarrow> bool" where
  "float_eq NaN b = False"
| "float_eq a NaN = False"
| "float_eq a b = (a = b)"

text \<open>
  The Python values an attribute can hold. Attribute assignment on these models is not
  validated (see \<open>Assignment\<close> below), so \<^verbatim>\<open>current_room\<close> can hold any value, whatever
  its annotation says.
\<close>

datatype pyval =
    PNone
  | PBool bool
  | PInt int
  | PFloat pyfloat
  | PStr string
  | PEnum Room
  | PList "pyval list"

text \<open>
  The values that stand for a member of \<^verbatim>\<open>Room\<close>: the members themselves and, since
  \<^verbatim>\<open>Room("kitchen") is Room.KITCHEN\<close>, the strings that are a member's value.
\<close>

definition in_Room :: "pyval \<Rightarrow> bool" where
  "in_Room v = (v \<in> set (map PEnum Room_members @ map (PStr \<circ> Room_value) Room_members))"

section \<open>Exceptions\<close>

text \<open>
  The exception classes: \<^verbatim>\<open>src/domain/exceptions.py\<close> declares \<^verbatim>\<open>SmartHomeError\<close>,
  \<^verbatim>\<open>LowBatteryError\<close>, \<^verbatim>\<open>SensorError\<close> and \<^verbatim>\<open>NavigationError\<close>;
  \<^verbatim>\<open>src/agents/cleaning_agent.py\<close>, lines 9-11, declares a second \<^verbatim>\<open>LowBatteryError\<close>
  of its own and imports nothing from the domain package. \<^verbatim>\<open>ValidationError\<close> is
  pydantic's, a \<^verbatim>\<open>ValueError\<close>.
\<close>

datatype exn_class =
    Exception
  | ValueError
  | ValidationError
  | SmartHomeError
  | domain_LowBatteryError
  | SensorError
  | NavigationError
  | agents_LowBatteryError

text \<open>The base class written in each \<^verbatim>\<open>class\<close> statement.\<close>

fun base :: "exn_class \<Rightarrow> exn_class option" where
  "base Exception = None"
| "base ValueError = Some Exception"
| "base ValidationError = Some ValueError"
| "base SmartHomeError = Some Exception"
| "base domain_LowBatteryError = Some SmartHomeError"
| "base SensorError = Some SmartHomeError"
| "base NavigationError = Some SmartHomeError"
| "base agents_LowBatteryError = Some Exception"

fun rank :: "exn_class \<Rightarrow> nat" where
  "rank Exception = 0"
| "rank ValueError = 1"
| "rank ValidationError = 2"
| "rank SmartHomeError = 1"
| "rank domain_LowBatteryError = 2"
| "rank SensorError = 2"
| "rank NavigationError = 2"
| "rank agents_LowBatteryError = 1"

text \<open>The class itself followed by its ancestors, up to \<^verbatim>\<open>Exception\<close>.\<close>

function superclasses :: "exn_class \<Rightarrow> exn_class list" where
  "superclasses c = (case base c of None \<Rightarrow> [c] | Some p \<Rightarrow> c # superclasses p)"
  by pat_completeness auto
termination
proof (relation "measure rank")
  show "wf (measure rank)"
    by simp
next
  fix c p
  assume "base c = Some p"
  then show "(p, c) \<in> measure rank"
    by (cases c) auto
qed

declare superclasses.simps [simp del]

definition issubclass :: "exn_class \<Rightarrow> exn_class \<Rightarrow> bool" where
  "issubclass c d = (d \<in> set (superclasses c))"

text \<open>
  A raised exception: its class and the message it was built with. A pydantic
  \<^verbatim>\<open>ValidationError\<close> carries instead the names of the fields that failed, in field
  order; the library's rendering of its message is not modelled.
\<close>

datatype exn = Exn exn_class string | ValidationErr "string list"

fun type_of :: "exn \<Rightarrow> exn_class" where
  "type_of (Exn c m) = c"
| "type_of (ValidationErr locs) = ValidationError"

text \<open>\<^verbatim>\<open>except handler:\<close> catches \<open>e\<close> exactly when \<^verbatim>\<open>isinstance(e, handler)\<close>.\<close>

definition caught_by :: "exn_class \<Rightarrow> exn \<Rightarrow> bool" where
  "caught_by handler e = issubclass (type_of e) handler"

text \<open>The outcome of a call: an exception of the given class, or a normal return.\<close>

definition raises :: "exn_class \<Rightarrow> exn + 'a \<Rightarrow> bool" where
  "raises c r = (case r of Inl e \<Rightarrow> type_of e = c | Inr x \<Rightarrow> False)"

text \<open>
  \<^verbatim>\<open>src/domain/exceptions.py\<close>, lines 5-9: the domain \<^verbatim>\<open>LowBatteryError\<close> has a default
  message.
\<close>

definition domain_LowBatteryError_init :: "string option \<Rightarrow> exn" where
  "domain_LowBatteryError_init message =
     Exn domain_LowBatteryError
       (case message of None \<Rightarrow> ''Battery level below 20%'' | Some m \<Rightarrow> m)"

section \<open>The state models\<close>

subsection \<open>The agent module's CleaningState\<close>

text \<open>
  \<^verbatim>\<open>src/agents/cleaning_agent.py\<close>, lines 4-7:
  \<^verbatim>\<open>
  class CleaningState(BaseModel):
      battery_level: float = 100.0
      current_room: str = "living_room"
      cleaning_path: list[str] = []
  \<close>
\<close>

record CleaningState =
  battery_level :: pyfloat
  current_room :: pyval
  cleaning_path :: "string list"

text \<open>
  The constructor, with each keyword argument given (\<open>Some\<close>) or omitted (\<open>None\<close>), at
  the annotated types. An omitted argument takes the field's default; no field has a
  constraint, so nothing is rejected.
\<close>

definition CleaningState_init ::
    "pyfloat option \<Rightarrow> string option \<Rightarrow> string list option \<Rightarrow> exn + CleaningState" where
  "CleaningState_init b r p =
     Inr \<lparr>battery_level = (case b of None \<Rightarrow> Finite 100 | Some x \<Rightarrow> x),
          current_room = PStr (case r of None \<Rightarrow> ''living_room'' | Some s \<Rightarrow> s),
          cleaning_path = (case p of None \<Rightarrow> [] | Some xs \<Rightarrow> xs)\<rparr>"

subsection \<open>The domain module's CleaningState\<close>

text \<open>
  \<^verbatim>\<open>src/domain/models.py\<close>, lines 10-14:
  \<^verbatim>\<open>
  class CleaningState(BaseModel):
      battery_level: float
      current_room: Room
      cleaning_path: list[Room]
      last_cleaned: dict[Room, str] = {}
  \<close>
  The first three fields have no default: they are required.
\<close>

record domain_CleaningState =
  domain_battery_level :: pyfloat
  domain_current_room :: pyval
  domain_cleaning_path :: "Room list"
  domain_last_cleaned :: "Room \<rightharpoonup> string"

text \<open>
  Validation of a value for a field annotated \<^verbatim>\<open>Room\<close>: a member is kept, a string
  that is a member's value becomes that member, anything else is an error.
\<close>

fun validate_Room :: "pyval \<Rightarrow> Room option" where
  "validate_Room (PEnum r) = Some r"
| "validate_Room (PStr s) = find (\<lambda>r. Room_value r = s) Room_members"
| "validate_Room v = None"

text \<open>
  The constructor. \<^verbatim>\<open>current_room\<close> is taken as any Python value; the other arguments
  at their annotated types. Every field is validated, and the fields that are missing or
  invalid are reported together in one \<^verbatim>\<open>ValidationError\<close>.
\<close>

definition domain_CleaningState_init ::
    "pyfloat option \<Rightarrow> pyval option \<Rightarrow> Room list option \<Rightarrow> (Room \<rightharpoonup> string) option
       \<Rightarrow> exn + domain_CleaningState" where
  "domain_CleaningState_init b r p l =
     (let locs =
        (if b = None then [''battery_level''] else []) @
        (if Option.bind r validate_Room = None then [''current_room''] else []) @
        (if p = None then [''cleaning_path''] else [])
      in if locs \<noteq> [] then Inl (ValidationErr locs)
         else Inr \<lparr>domain_battery_level = the b,
                   domain_current_room = PEnum (the (Option.bind r validate_Room)),
                   domain_cleaning_path = the p,
                   domain_last_cleaned = (case l of None \<Rightarrow> Map.empty | Some m \<Rightarrow> m)\<rparr>)"

subsection \<open>Assignment\<close>

text \<open>
  Neither class declares a model configuration, so pydantic's default holds:
  \<^verbatim>\<open>validate_assignment\<close> is off and \<^verbatim>\<open>state.field = v\<close> stores \<open>v\<close> as it is.
  The result type leaves room for the \<^verbatim>\<open>ValidationError\<close> a validating model would
  raise; these never do.
\<close>

definition set_battery_level :: "pyfloat \<Rightarrow> CleaningState \<Rightarrow> exn + CleaningState" where
  "set_battery_level v s = Inr (s\<lparr>battery_level := v\<rparr>)"

definition set_current_room :: "pyval \<Rightarrow> CleaningState \<Rightarrow> exn + CleaningState" where
  "set_current_room v s = Inr (s\<lparr>current_room := v\<rparr>)"

definition domain_set_battery_level ::
    "pyfloat \<Rightarrow> domain_CleaningState \<Rightarrow> exn + domain_CleaningState" where
  "domain_set_battery_level v s = Inr (s\<lparr>domain_battery_level := v\<rparr>)"

definition domain_set_current_room ::
    "pyval \<Rightarrow> domain_CleaningState \<Rightarrow> exn + domain_CleaningState" where
  "domain_set_current_room v s = Inr (s\<lparr>domain_current_room := v\<rparr>)"

section \<open>The agent\<close>

text \<open>
  The IoT client is a collaborator outside the repository. It is modelled by what each
  accessor does when called: it raises an exception (\<open>Inl\<close>) or returns a value.
\<close>

record iot_client =
  get_battery_level :: "exn + pyfloat"
  get_current_room :: "exn + pyval"

record AdvancedCleaningAgent =
  state :: CleaningState
  iot :: iot_client

text \<open>
  \<^verbatim>\<open>
  def __init__(self, iot_client):
      self.state = CleaningState()
      self.iot = iot_client
  \<close>
\<close>

definition AdvancedCleaningAgent_init :: "iot_client \<Rightarrow> exn + AdvancedCleaningAgent" where
  "AdvancedCleaningAgent_init iot_client =
     (case CleaningState_init None None None of
        Inl e \<Rightarrow> Inl e
      | Inr s \<Rightarrow> Inr \<lparr>state = s, iot = iot_client\<rparr>)"

text \<open>
  A method returns its outcome together with the agent as the call leaves it, since an
  exception does not undo the assignments made before it.
  \<^verbatim>\<open>
  def check_battery(self):
      if self.state.battery_level < 20:
          raise LowBatteryError("Returning to dock")
  \<close>
\<close>

definition check_battery ::
    "AdvancedCleaningAgent \<Rightarrow> (exn + unit) \<times> AdvancedCleaningAgent" where
  "check_battery self =
     (if float_lt (battery_level (state self)) (Finite 20)
      then (Inl (Exn agents_LowBatteryError ''Returning to dock''), self)
      else (Inr (), self))"

text \<open>
  \<^verbatim>\<open>
  def update_sensors(self):
      self.state.battery_level = self.iot.get_battery_level()
      self.state.current_room = self.iot.get_current_room()
  \<close>
  Four steps in order: call, assign, call, assign. The first one that raises ends the
  method.
\<close>

definition update_sensors ::
    "AdvancedCleaningAgent \<Rightarrow> (exn + unit) \<times> AdvancedCleaningAgent" where
  "update_sensors self =
     (case get_battery_level (iot self) of
        Inl e \<Rightarrow> (Inl e, self)
      | Inr b \<Rightarrow>
          (case set_battery_level b (state self) of
             Inl e \<Rightarrow> (Inl e, self)
           | Inr s1 \<Rightarrow>
               (let self1 = self\<lparr>state := s1\<rparr> in
                case get_current_room (iot self1) of
                  Inl e \<Rightarrow> (Inl e, self1)
                | Inr r \<Rightarrow>
                    (case set_current_room r (state self1) of
                       Inl e \<Rightarrow> (Inl e, self1)
                     | Inr s2 \<Rightarrow> (Inr (), self1\<lparr>state := s2\<rparr>)))))"

section \<open>Metric logging\<close>

text \<open>
  \<^verbatim>\<open>src/infrastructure/logging.py\<close>, lines 17-23. The logger handed to
  \<^verbatim>\<open>PerformanceLogger\<close> is any object with an \<^verbatim>\<open>info\<close> method; it is modelled by the
  records it has been given, oldest first.
\<close>

datatype log_level = DEBUG | INFO | WARNING | ERROR | CRITICAL

type_synonym logger = "(log_level \<times> string) list"

definition info :: "string \<Rightarrow> logger \<Rightarrow> logger" where
  "info msg l = l @ [(INFO, msg)]"

record PerformanceLogger =
  logger :: logger

text \<open>
  \<^verbatim>\<open>
  def log_metric(self, name: str, value: float):
      self.logger.info(f"METRIC|{name}|{value}")
  \<close>
  The text an f-string puts for \<^verbatim>\<open>{value}\<close> is \<^verbatim>\<open>format(value, "")\<close>; that function
  is the parameter \<open>fmt\<close>. For a string, \<^verbatim>\<open>{name}\<close> is the string itself.
\<close>

definition log_metric ::
    "('v \<Rightarrow> string) \<Rightarrow> PerformanceLogger \<Rightarrow> string \<Rightarrow> 'v \<Rightarrow> PerformanceLogger" where
  "log_metric fmt self name v =
     self\<lparr>logger := info (''METRIC|'' @ name @ ''|'' @ fmt v) (logger self)\<rparr>"

section \<open>Properties\<close>

subsection \<open>Auxiliary facts\<close>

lemma superclasses_agents_LowBatteryError:
  "superclasses agents_LowBatteryError = [agents_LowBatteryError, Exception]"
  by (simp add: superclasses.simps)

lemma float_not_lt: "\<not> float_lt a b \<longleftrightarrow> float_le b a \<or> a = NaN \<or> b = NaN"
  by (cases a; cases b) auto

text \<open>Floats that Python's \<^verbatim>\<open>==\<close> finds equal are equal values.\<close>

lemma float_eq_imp_eq: "float_eq a b \<Longrightarrow> a = b"
  by (cases a; cases b) auto

lemma Room_members_all: "r \<in> set Room_members"
  by (cases r) (simp_all add: Room_members_def)

lemma validate_Room_outside: "\<not> in_Room v \<Longrightarrow> validate_Room v = None"
proof (cases v)
  case (PEnum r)
  assume "\<not> in_Room v"
  with PEnum Room_members_all [of r] show ?thesis
    by (simp add: in_Room_def)
next
  case (PStr s)
  assume "\<not> in_Room v"
  with PStr have "\<forall>r \<in> set Room_members. Room_value r \<noteq> s"
    by (auto simp: in_Room_def)
  with PStr show ?thesis
    by (simp add: find_None_iff)
qed simp_all

lemma validate_Room_inside: "in_Room v \<Longrightarrow> \<exists>r. validate_Room v = Some r"
  by (cases v) (auto simp: in_Room_def Room_members_def)

text \<open>
  The domain module's model has required fields: constructed with no arguments it fails,
  naming the three of them.
\<close>

lemma domain_CleaningState_init_no_arguments:
  "domain_CleaningState_init None None None l
     = Inl (ValidationErr [''battery_level'', ''current_room'', ''cleaning_path''])"
  by (simp add: domain_CleaningState_init_def)

subsection \<open>The battery guard\<close>

text \<open>
  With \<^verbatim>\<open>battery_level\<close> holding \<^verbatim>\<open>nan\<close> the guard returns normally, although
  \<^verbatim>\<open>nan >= 20\<close> is false (and so is \<^verbatim>\<open>nan < 20\<close>).
\<close>

theorem check_battery_nan_counterexample:
  "fst (check_battery
      \<lparr>state = \<lparr>battery_level = NaN, current_room = PStr ''living_room'', cleaning_path = []\<rparr>,
       iot = \<lparr>get_battery_level = Inr NaN, get_current_room = Inr (PStr ''living_room'')\<rparr>\<rparr>)
     = Inr ()
   \<and> \<not> float_le (Finite 20) NaN
   \<and> \<not> float_lt NaN (Finite 20)"
  by (simp add: check_battery_def)

text \<open>
  C1, as amended. For every battery value \<open>b\<close>, \<^verbatim>\<open>check_battery\<close> raises
  \<^verbatim>\<open>LowBatteryError\<close> if and only if \<open>b < 20\<close>, and returns normally if and only if
  \<open>b \<ge> 20\<close> or \<open>b\<close> is \<^verbatim>\<open>nan\<close>. At \<open>b = 20\<close> it returns normally. It leaves the
  agent, and so the state, as it found it.
\<close>

theorem check_battery_guard:
  "(raises agents_LowBatteryError
      (fst (check_battery (self\<lparr>state := (state self)\<lparr>battery_level := b\<rparr>\<rparr>)))
     \<longleftrightarrow> float_lt b (Finite 20))
   \<and> (fst (check_battery (self\<lparr>state := (state self)\<lparr>battery_level := b\<rparr>\<rparr>)) = Inr ()
     \<longleftrightarrow> float_le (Finite 20) b \<or> b = NaN)
   \<and> fst (check_battery (self\<lparr>state := (state self)\<lparr>battery_level := Finite 20\<rparr>\<rparr>)) = Inr ()
   \<and> snd (check_battery self) = self"
  using float_not_lt [of b "Finite 20"]
  by (auto simp: check_battery_def raises_def)

subsection \<open>Sensor refresh\<close>

text \<open>
  The refresh is not atomic. When the battery accessor returns 45 and the room accessor
  raises a \<^verbatim>\<open>SensorError\<close>, the call raises that error and \<^verbatim>\<open>battery_level\<close>, 100
  before the call, is 45 after it.
\<close>

theorem update_sensors_partial_counterexample:
  "fst (update_sensors
      \<lparr>state = \<lparr>battery_level = Finite 100, current_room = PStr ''living_room'', cleaning_path = []\<rparr>,
       iot = \<lparr>get_battery_level = Inr (Finite 45),
              get_current_room = Inl (Exn SensorError ''room sensor unreachable'')\<rparr>\<rparr>)
     = Inl (Exn SensorError ''room sensor unreachable'')
   \<and> battery_level (state (snd (update_sensors
      \<lparr>state = \<lparr>battery_level = Finite 100, current_room = PStr ''living_room'', cleaning_path = []\<rparr>,
       iot = \<lparr>get_battery_level = Inr (Finite 45),
              get_current_room = Inl (Exn SensorError ''room sensor unreachable'')\<rparr>\<rparr>))) = Finite 45"
  by (simp add: update_sensors_def set_battery_level_def set_current_room_def)

text \<open>
  C2, as amended. An exception raised by an accessor leaves \<^verbatim>\<open>update_sensors\<close> unchanged
  (a \<^verbatim>\<open>SensorError\<close> when the accessor raised one). If \<^verbatim>\<open>get_battery_level\<close> raises,
  the whole agent is unmodified. If \<^verbatim>\<open>get_battery_level\<close> returns \<open>b\<close> and
  \<^verbatim>\<open>get_current_room\<close> raises, \<^verbatim>\<open>battery_level\<close> holds \<open>b\<close> and every other field is
  unmodified.
\<close>

theorem update_sensors_failure:
  "(get_battery_level (iot self) = Inl e \<longrightarrow> update_sensors self = (Inl e, self))
   \<and> (get_battery_level (iot self) = Inr b \<and> get_current_room (iot self) = Inl e \<longrightarrow>
        update_sensors self = (Inl e, self\<lparr>state := (state self)\<lparr>battery_level := b\<rparr>\<rparr>))"
  by (simp add: update_sensors_def set_battery_level_def set_current_room_def)

theorem update_sensors_failure_witness:
  "update_sensors
      \<lparr>state = \<lparr>battery_level = Finite 100, current_room = PStr ''living_room'', cleaning_path = [''hall'']\<rparr>,
       iot = \<lparr>get_battery_level = Inl (Exn SensorError ''battery sensor unreachable''),
              get_current_room = Inr (PStr ''kitchen'')\<rparr>\<rparr>
     = (Inl (Exn SensorError ''battery sensor unreachable''),
        \<lparr>state = \<lparr>battery_level = Finite 100, current_room = PStr ''living_room'', cleaning_path = [''hall'']\<rparr>,
         iot = \<lparr>get_battery_level = Inl (Exn SensorError ''battery sensor unreachable''),
                get_current_room = Inr (PStr ''kitchen'')\<rparr>\<rparr>)
   \<and> update_sensors
      \<lparr>state = \<lparr>battery_level = Finite 100, current_room = PStr ''living_room'', cleaning_path = [''hall'']\<rparr>,
       iot = \<lparr>get_battery_level = Inr (Finite 45),
              get_current_room = Inl (Exn SensorError ''room sensor unreachable'')\<rparr>\<rparr>
     = (Inl (Exn SensorError ''room sensor unreachable''),
        \<lparr>state = \<lparr>battery_level = Finite 45, current_room = PStr ''living_room'', cleaning_path = [''hall'']\<rparr>,
         iot = \<lparr>get_battery_level = Inr (Finite 45),
                get_current_room = Inl (Exn SensorError ''room sensor unreachable'')\<rparr>\<rparr>)"
  using
    update_sensors_failure [where e = "Exn SensorError ''battery sensor unreachable''" and self =
      "\<lparr>state = \<lparr>battery_level = Finite 100, current_room = PStr ''living_room'', cleaning_path = [''hall'']\<rparr>,
        iot = \<lparr>get_battery_level = Inl (Exn SensorError ''battery sensor unreachable''),
               get_current_room = Inr (PStr ''kitchen'')\<rparr>\<rparr>"]
    update_sensors_failure [where e = "Exn SensorError ''room sensor unreachable''" and b = "Finite 45" and self =
      "\<lparr>state = \<lparr>battery_level = Finite 100, current_room = PStr ''living_room'', cleaning_path = [''hall'']\<rparr>,
        iot = \<lparr>get_battery_level = Inr (Finite 45),
               get_current_room = Inl (Exn SensorError ''room sensor unreachable'')\<rparr>\<rparr>"]
  by simp

subsection \<open>Validation of \<open>current_room\<close>\<close>

text \<open>
  \<^verbatim>\<open>"garage"\<close> is not a member of \<^verbatim>\<open>Room\<close>, yet assigning it to \<^verbatim>\<open>current_room\<close>
  succeeds on both models, and so does constructing the agent module's model with it.
\<close>

theorem current_room_unvalidated_counterexample:
  "\<not> in_Room (PStr ''garage'')
   \<and> set_current_room (PStr ''garage'')
        \<lparr>battery_level = Finite 100, current_room = PStr ''living_room'', cleaning_path = []\<rparr>
      = Inr \<lparr>battery_level = Finite 100, current_room = PStr ''garage'', cleaning_path = []\<rparr>
   \<and> domain_set_current_room (PStr ''garage'')
        \<lparr>domain_battery_level = Finite 100, domain_current_room = PEnum LIVING,
         domain_cleaning_path = [], domain_last_cleaned = Map.empty\<rparr>
      = Inr \<lparr>domain_battery_level = Finite 100, domain_current_room = PStr ''garage'',
             domain_cleaning_path = [], domain_last_cleaned = Map.empty\<rparr>
   \<and> CleaningState_init None (Some ''garage'') None
      = Inr \<lparr>battery_level = Finite 100, current_room = PStr ''garage'', cleaning_path = []\<rparr>"
  by (simp add: in_Room_def Room_members_def set_current_room_def domain_set_current_room_def
      CleaningState_init_def)

text \<open>
  C3, as amended. For every value \<open>v\<close> that is not a member of \<^verbatim>\<open>Room\<close>, constructing
  the domain module's \<^verbatim>\<open>CleaningState\<close> with \<^verbatim>\<open>current_room = v\<close> fails with a
  \<^verbatim>\<open>ValidationError\<close>, whatever the other arguments. Assigning \<open>v\<close> to the
  \<^verbatim>\<open>current_room\<close> field of an existing state, of either module, succeeds and stores
  \<open>v\<close>.
\<close>

theorem current_room_validation:
  "\<not> in_Room v \<Longrightarrow>
     raises ValidationError (domain_CleaningState_init b (Some v) p l)
     \<and> domain_set_current_room v d = Inr (d\<lparr>domain_current_room := v\<rparr>)
     \<and> set_current_room v s = Inr (s\<lparr>current_room := v\<rparr>)"
  by (simp add: validate_Room_outside domain_CleaningState_init_def raises_def
      domain_set_current_room_def set_current_room_def Let_def)

theorem current_room_validation_witness:
  "\<not> in_Room (PStr ''garage'')
   \<and> raises ValidationError (domain_CleaningState_init (Some (Finite 50)) (Some (PStr ''garage'')) (Some []) None)
   \<and> domain_set_current_room (PStr ''garage'')
        \<lparr>domain_battery_level = Finite 100, domain_current_room = PEnum LIVING,
         domain_cleaning_path = [], domain_last_cleaned = Map.empty\<rparr>
      = Inr \<lparr>domain_battery_level = Finite 100, domain_current_room = PStr ''garage'',
             domain_cleaning_path = [], domain_last_cleaned = Map.empty\<rparr>
   \<and> set_current_room (PStr ''garage'')
        \<lparr>battery_level = Finite 100, current_room = PStr ''living_room'', cleaning_path = []\<rparr>
      = Inr \<lparr>battery_level = Finite 100, current_room = PStr ''garage'', cleaning_path = []\<rparr>"
proof -
  have h: "\<not> in_Room (PStr ''garage'')"
    by (simp add: in_Room_def Room_members_def)
  show ?thesis
    using h current_room_validation [OF h, where b = "Some (Finite 50)" and p = "Some []" and l = None
      and d = "\<lparr>domain_battery_level = Finite 100, domain_current_room = PEnum LIVING,
         domain_cleaning_path = [], domain_last_cleaned = Map.empty\<rparr>"
      and s = "\<lparr>battery_level = Finite 100, current_room = PStr ''living_room'', cleaning_path = []\<rparr>"]
    by simp
qed

text \<open>
  C4. When the accessors return \<open>b\<close> and \<open>r\<close>, \<^verbatim>\<open>update_sensors\<close> returns normally,
  \<^verbatim>\<open>battery_level\<close> is exactly \<open>b\<close>, \<^verbatim>\<open>current_room\<close> is exactly \<open>r\<close>, and
  \<^verbatim>\<open>cleaning_path\<close> and everything else in the agent are as before.
\<close>

theorem update_sensors_success:
  "get_battery_level (iot self) = Inr b \<Longrightarrow> get_current_room (iot self) = Inr r \<Longrightarrow>
     update_sensors self
       = (Inr (), self\<lparr>state := (state self)\<lparr>battery_level := b, current_room := r\<rparr>\<rparr>)
     \<and> battery_level (state (snd (update_sensors self))) = b
     \<and> current_room (state (snd (update_sensors self))) = r
     \<and> cleaning_path (state (snd (update_sensors self))) = cleaning_path (state self)
     \<and> iot (snd (update_sensors self)) = iot self"
  by (simp add: update_sensors_def set_battery_level_def set_current_room_def)

theorem update_sensors_success_witness:
  "update_sensors
      \<lparr>state = \<lparr>battery_level = Finite 100, current_room = PStr ''living_room'',
                cleaning_path = [''living_room'', ''bedroom'']\<rparr>,
       iot = \<lparr>get_battery_level = Inr (Finite 45), get_current_room = Inr (PStr ''kitchen'')\<rparr>\<rparr>
     = (Inr (),
        \<lparr>state = \<lparr>battery_level = Finite 45, current_room = PStr ''kitchen'',
                 cleaning_path = [''living_room'', ''bedroom'']\<rparr>,
         iot = \<lparr>get_battery_level = Inr (Finite 45), get_current_room = Inr (PStr ''kitchen'')\<rparr>\<rparr>)"
  using update_sensors_success [where b = "Finite 45" and r = "PStr ''kitchen''" and self =
      "\<lparr>state = \<lparr>battery_level = Finite 100, current_room = PStr ''living_room'',
                cleaning_path = [''living_room'', ''bedroom'']\<rparr>,
        iot = \<lparr>get_battery_level = Inr (Finite 45), get_current_room = Inr (PStr ''kitchen'')\<rparr>\<rparr>"]
  by simp

subsection \<open>The fresh state\<close>

text \<open>
  The domain module's \<^verbatim>\<open>CleaningState()\<close> yields no state: its three required fields
  are missing and the call raises a \<^verbatim>\<open>ValidationError\<close>.
\<close>

theorem domain_fresh_state_counterexample:
  "domain_CleaningState_init None None None None
     = Inl (ValidationErr [''battery_level'', ''current_room'', ''cleaning_path''])
   \<and> raises ValidationError (domain_CleaningState_init None None None None)"
  by (simp add: domain_CleaningState_init_def raises_def)

text \<open>
  C5, as amended. The agent module's \<^verbatim>\<open>CleaningState()\<close>, the call the agent's
  constructor makes, yields \<^verbatim>\<open>battery_level == 100.0\<close>,
  \<^verbatim>\<open>current_room == "living_room"\<close> (the value of \<^verbatim>\<open>Room.LIVING\<close>) and
  \<^verbatim>\<open>cleaning_path == []\<close>; a new agent holds that state, and \<^verbatim>\<open>check_battery\<close>
  returns normally on it. The domain module's \<^verbatim>\<open>CleaningState\<close> cannot be constructed
  with no arguments: the call fails with a \<^verbatim>\<open>ValidationError\<close>.
\<close>

theorem fresh_state:
  "CleaningState_init None None None
     = Inr \<lparr>battery_level = Finite 100, current_room = PStr (Room_value LIVING),
            cleaning_path = []\<rparr>
   \<and> AdvancedCleaningAgent_init c
     = Inr \<lparr>state = \<lparr>battery_level = Finite 100, current_room = PStr ''living_room'',
                     cleaning_path = []\<rparr>,
            iot = c\<rparr>
   \<and> fst (check_battery
        \<lparr>state = \<lparr>battery_level = Finite 100, current_room = PStr ''living_room'',
                  cleaning_path = []\<rparr>,
         iot = c\<rparr>) = Inr ()
   \<and> raises ValidationError (domain_CleaningState_init None None None l)"
  by (simp add: CleaningState_init_def AdvancedCleaningAgent_init_def check_battery_def
      domain_CleaningState_init_def raises_def)

text \<open>
  C6. On every state whose \<^verbatim>\<open>battery_level\<close> is below 20, \<^verbatim>\<open>check_battery\<close> raises
  the agent module's \<^verbatim>\<open>LowBatteryError\<close> with the message \<^verbatim>\<open>"Returning to dock"\<close>.
\<close>

theorem check_battery_low:
  "float_lt (battery_level (state self)) (Finite 20) \<Longrightarrow>
     check_battery self = (Inl (Exn agents_LowBatteryError ''Returning to dock''), self)"
  by (simp add: check_battery_def)

theorem check_battery_low_witness:
  "check_battery
      \<lparr>state = \<lparr>battery_level = Finite 15, current_room = PStr ''living_room'', cleaning_path = []\<rparr>,
       iot = \<lparr>get_battery_level = Inr (Finite 15), get_current_room = Inr (PStr ''living_room'')\<rparr>\<rparr>
     = (Inl (Exn agents_LowBatteryError ''Returning to dock''),
        \<lparr>state = \<lparr>battery_level = Finite 15, current_room = PStr ''living_room'', cleaning_path = []\<rparr>,
         iot = \<lparr>get_battery_level = Inr (Finite 15), get_current_room = Inr (PStr ''living_room'')\<rparr>\<rparr>)"
  using check_battery_low [where self =
      "\<lparr>state = \<lparr>battery_level = Finite 15, current_room = PStr ''living_room'', cleaning_path = []\<rparr>,
        iot = \<lparr>get_battery_level = Inr (Finite 15), get_current_room = Inr (PStr ''living_room'')\<rparr>\<rparr>"]
  by simp

subsection \<open>The range of \<open>battery_level\<close>\<close>

text \<open>
  150 and -5 are outside \<open>[0, 100]\<close>; constructing a state with the first and assigning
  the second both succeed.
\<close>

theorem battery_range_unchecked_counterexample:
  "\<not> (float_le (Finite 0) (Finite 150) \<and> float_le (Finite 150) (Finite 100))
   \<and> CleaningState_init (Some (Finite 150)) None None
      = Inr \<lparr>battery_level = Finite 150, current_room = PStr ''living_room'', cleaning_path = []\<rparr>
   \<and> \<not> (float_le (Finite 0) (Finite (- 5)) \<and> float_le (Finite (- 5)) (Finite 100))
   \<and> set_battery_level (Finite (- 5))
        \<lparr>battery_level = Finite 100, current_room = PStr ''living_room'', cleaning_path = []\<rparr>
      = Inr \<lparr>battery_level = Finite (- 5), current_room = PStr ''living_room'', cleaning_path = []\<rparr>"
  by (simp add: CleaningState_init_def set_battery_level_def)

text \<open>
  C7, as amended. For every value \<open>b\<close>, in particular every \<open>b\<close> outside \<open>[0, 100]\<close>,
  constructing a \<^verbatim>\<open>CleaningState\<close> with \<^verbatim>\<open>battery_level = b\<close> succeeds and the state
  holds \<open>b\<close>, and assigning \<open>b\<close> to \<^verbatim>\<open>battery_level\<close> succeeds and stores \<open>b\<close>, on
  both models: no range is enforced.
\<close>

theorem battery_level_unconstrained:
  "(\<exists>s. CleaningState_init (Some b) r p = Inr s \<and> battery_level s = b)
   \<and> set_battery_level b s0 = Inr (s0\<lparr>battery_level := b\<rparr>)
   \<and> (\<exists>d. domain_CleaningState_init (Some b) (Some (PEnum m)) (Some q) l = Inr d
          \<and> domain_battery_level d = b)
   \<and> domain_set_battery_level b d0 = Inr (d0\<lparr>domain_battery_level := b\<rparr>)"
  by (simp add: CleaningState_init_def set_battery_level_def domain_CleaningState_init_def
      domain_set_battery_level_def)

subsection \<open>Metric records\<close>

text \<open>
  C8. One call of \<^verbatim>\<open>log_metric(n, v)\<close> hands the logger exactly one record, at level
  INFO, whose message is \<^verbatim>\<open>METRIC|\<close> followed by \<open>n\<close>, \<^verbatim>\<open>|\<close> and the text of \<open>v\<close>.
\<close>

theorem log_metric_record:
  "logger (log_metric fmt self n v) = logger self @ [(INFO, ''METRIC|'' @ n @ ''|'' @ fmt v)]
   \<and> length (logger (log_metric fmt self n v)) = length (logger self) + 1"
  by (simp add: log_metric_def info_def)

subsection \<open>The class of the guard's exception\<close>

text \<open>
  C9. On every low-battery run the guard raises an exception whose class is the agent
  module's \<^verbatim>\<open>LowBatteryError\<close>: a direct subclass of \<^verbatim>\<open>Exception\<close>, distinct from the
  domain module's \<^verbatim>\<open>LowBatteryError\<close> and not a subclass of \<^verbatim>\<open>SmartHomeError\<close>. A
  handler for \<^verbatim>\<open>SmartHomeError\<close> or for the domain \<^verbatim>\<open>LowBatteryError\<close> does not
  catch it.
\<close>

theorem guard_exception_class:
  "float_lt (battery_level (state self)) (Finite 20) \<Longrightarrow>
     \<exists>e. fst (check_battery self) = Inl e
       \<and> type_of e = agents_LowBatteryError
       \<and> base agents_LowBatteryError = Some Exception
       \<and> agents_LowBatteryError \<noteq> domain_LowBatteryError
       \<and> \<not> issubclass agents_LowBatteryError SmartHomeError
       \<and> \<not> caught_by SmartHomeError e
       \<and> \<not> caught_by domain_LowBatteryError e"
  by (simp add: check_battery_def caught_by_def issubclass_def superclasses_agents_LowBatteryError)

theorem guard_exception_class_witness:
  "\<not> caught_by SmartHomeError (Exn agents_LowBatteryError ''Returning to dock'')
   \<and> \<not> caught_by domain_LowBatteryError (Exn agents_LowBatteryError ''Returning to dock'')
   \<and> fst (check_battery
      \<lparr>state = \<lparr>battery_level = Finite 15, current_room = PStr ''kitchen'', cleaning_path = []\<rparr>,
       iot = \<lparr>get_battery_level = Inr (Finite 15), get_current_room = Inr (PStr ''kitchen'')\<rparr>\<rparr>)
     = Inl (Exn agents_LowBatteryError ''Returning to dock'')"
  using guard_exception_class [where self =
      "\<lparr>state = \<lparr>battery_level = Finite 15, current_room = PStr ''kitchen'', cleaning_path = []\<rparr>,
        iot = \<lparr>get_battery_level = Inr (Finite 15), get_current_room = Inr (PStr ''kitchen'')\<rparr>\<rparr>"]
  by (auto simp: check_battery_def)

subsection \<open>The guard reads the battery level only\<close>

text \<open>
  C10. On two agents with equal \<^verbatim>\<open>battery_level\<close> (as they are whenever Python's
  \<^verbatim>\<open>==\<close> holds of the two), whatever their rooms, paths and clients, \<^verbatim>\<open>check_battery\<close> returns normally on both or raises \<^verbatim>\<open>LowBatteryError\<close>
  with the same message on both.
\<close>

theorem check_battery_noninterference:
  "battery_level (state s1) = battery_level (state s2) \<Longrightarrow>
     (fst (check_battery s1) = Inr () \<and> fst (check_battery s2) = Inr ())
     \<or> (\<exists>m. fst (check_battery s1) = Inl (Exn agents_LowBatteryError m)
           \<and> fst (check_battery s2) = Inl (Exn agents_LowBatteryError m))"
  by (simp add: check_battery_def)

theorem check_battery_noninterference_witness:
  "fst (check_battery
      \<lparr>state = \<lparr>battery_level = Finite 15, current_room = PStr ''kitchen'', cleaning_path = []\<rparr>,
       iot = \<lparr>get_battery_level = Inr (Finite 15), get_current_room = Inr (PStr ''kitchen'')\<rparr>\<rparr>)
   = fst (check_battery
      \<lparr>state = \<lparr>battery_level = Finite 15, current_room = PStr ''bedroom'',
                cleaning_path = [''kitchen'', ''bedroom'']\<rparr>,
       iot = \<lparr>get_battery_level = Inl (Exn SensorError ''offline''),
              get_current_room = Inr PNone\<rparr>\<rparr>)"
  using check_battery_noninterference [where
      ?s1.0 = "\<lparr>state = \<lparr>battery_level = Finite 15, current_room = PStr ''kitchen'', cleaning_path = []\<rparr>,
        iot = \<lparr>get_battery_level = Inr (Finite 15), get_current_room = Inr (PStr ''kitchen'')\<rparr>\<rparr>"
      and ?s2.0 = "\<lparr>state = \<lparr>battery_level = Finite 15, current_room = PStr ''bedroom'',
                cleaning_path = [''kitchen'', ''bedroom'']\<rparr>,
        iot = \<lparr>get_battery_level = Inl (Exn SensorError ''offline''),
               get_current_room = Inr PNone\<rparr>\<rparr>"]
  by auto

end
